theory Spec2Isabelle
  imports Main
begin

section \<open>JavaScript values and objects\<close>

text \<open>
  The primitive values that occur in rows, identifiers and keys. Numbers are the integers
  that identifiers take; \<open>Undefined\<close> is what reading a missing property gives.
\<close>

datatype jsval = Undefined | Null | JBool bool | Num int | Str string

fun truthy :: "jsval \<Rightarrow> bool" where
  "truthy Undefined = False"
| "truthy Null = False"
| "truthy (JBool b) = b"
| "truthy (Num n) = (n \<noteq> 0)"
| "truthy (Str s) = (s \<noteq> [])"

text \<open>A row, an attribute hash, a \<open>where\<close> object: own string keys to values.\<close>

type_synonym row = "string \<rightharpoonup> jsval"

text \<open>\<open>obj[key]\<close>, and Backbone's \<open>model.get(key)\<close> on the attributes.\<close>

definition getattr :: "row \<Rightarrow> string \<Rightarrow> jsval" where
  "getattr obj k = (case obj k of None \<Rightarrow> Undefined | Some v \<Rightarrow> v)"

text \<open>\<open>_.pluck(list, key)\<close>: one value per element, in order, nothing removed.\<close>

definition pluck :: "row list \<Rightarrow> string \<Rightarrow> jsval list" where
  "pluck resp k = map (\<lambda>obj. getattr obj k) resp"

text \<open>\<open>_.extend(data, item)\<close>: every key of \<open>item\<close> is written over \<open>data\<close>.\<close>

definition extend_hash :: "row \<Rightarrow> row \<Rightarrow> row" where
  "extend_hash data item = data ++ item"

text \<open>\<open>v || d\<close> for an optional string argument: absent and empty strings are falsy.\<close>

definition or_default :: "string option \<Rightarrow> string \<Rightarrow> string" where
  "or_default v d = (case v of None \<Rightarrow> d | Some s \<Rightarrow> if s = [] then d else s)"

text \<open>
  A possibly missing string used as a property key or in a concatenation: JavaScript
  turns \<open>undefined\<close> into the text \<open>undefined\<close>.
\<close>

definition prop_key :: "string option \<Rightarrow> string" where
  "prop_key k = (case k of None \<Rightarrow> ''undefined'' | Some s \<Rightarrow> s)"

text \<open>\<open>s.split('.')\<close> and \<open>parts.join('.')\<close>.\<close>

fun split_dot :: "string \<Rightarrow> string list" where
  "split_dot [] = [[]]"
| "split_dot (c # cs) =
     (if c = CHR ''.'' then [] # split_dot cs
      else (c # hd (split_dot cs)) # tl (split_dot cs))"

fun join_dot :: "string list \<Rightarrow> string" where
  "join_dot [] = []"
| "join_dot [p] = p"
| "join_dot (p # q # ps) = p @ CHR ''.'' # join_dot (q # ps)"

text \<open>The default order of \<open>Array.prototype.sort\<close> on two strings: by character code.\<close>

fun code_le :: "string \<Rightarrow> string \<Rightarrow> bool" where
  "code_le [] ys = True"
| "code_le (x # xs) [] = False"
| "code_le (x # xs) (y # ys) =
     (if x = y then code_le xs ys else (of_char x :: nat) < of_char y)"

definition sort_join :: "string \<Rightarrow> string \<Rightarrow> string" where
  "sort_join a b = (if code_le a b then a @ ''_'' @ b else b @ ''_'' @ a)"

section \<open>Errors\<close>

text \<open>
  The failures of the core. \<open>TypeError\<close> is the runtime's own error: calling or reading a
  property of \<open>undefined\<close>, or constructing with a missing constructor.
\<close>

datatype error =
    RelationTypeMismatch
  | UnknownRelation string
  | EmptyResponse
  | DestroyWithoutConstraint
  | TypeError

section \<open>The query-builder collaborator\<close>

text \<open>
  Knex is not part of the repository. A builder is the sequence of calls it has received;
  an operation of the core is described by the calls it sends.
\<close>

datatype call =
    WhereIn string "jsval list"
  | Where string string jsval
  | Where2 string jsval
  | WhereObj "row option"
  | Join string string string string
  | Limit nat
  | Transacting nat
  | Select "string list option"
  | SetIdAttribute string
  | Insert row
  | Update row
  | Del

record query =
  qtable :: string
  qcalls :: "call list"

section \<open>Entity types and relation descriptors\<close>

type_synonym cname = string

text \<open>
  A constructor handed to a relation accessor: a subclass of \<open>Model\<close>, or a subclass of
  \<open>Collection\<close> whose \<open>model\<close> is the named class.
\<close>

datatype ctor = ModelCtor cname | CollectionCtor cname

fun ctor_class :: "ctor \<Rightarrow> cname" where
  "ctor_class (ModelCtor c) = c"
| "ctor_class (CollectionCtor c) = c"

datatype rel_type = HasOne | HasMany | BelongsTo | BelongsToMany

text \<open>
  What the property of a given name does when it is called on a model of an entity type:
  it calls one of the four relation methods with its arguments, or it returns no relation
  object. A name with no entry is not a property of the model.
\<close>

datatype accessor =
    CallsHasOne cname "string option"
  | CallsHasMany ctor "string option"
  | CallsBelongsTo cname "string option"
  | CallsBelongsToMany ctor "string option" "string option" "string option"
  | ReturnsNothing

record class_def =
  tableName :: string
  idAttribute :: string
  accessors :: "string \<rightharpoonup> accessor"
  format :: "row \<Rightarrow> row"

text \<open>
  What the core is run against: the declared entity types, the inflection library's
  \<open>singularize\<close>, the builder's report of how many where-predicates it holds
  (\<open>query.wheres.length\<close>), and the rows the store answers to a select.
\<close>

record world =
  classes :: "cname \<Rightarrow> class_def"
  singularize :: "string \<Rightarrow> string"
  wheres_length :: "call list \<Rightarrow> nat"
  run_select :: "query \<Rightarrow> row list"

text \<open>The \<open>_relation\<close> hash; an unset property is \<open>None\<close> or \<open>Undefined\<close>.\<close>

record relation =
  rtype :: rel_type
  foreignKey :: string
  otherKey :: "string option"
  joinTableName :: "string option"
  modelCtor :: "ctor option"
  collectionCtor :: "ctor option"
  parentIdAttr :: "string option"
  fkValue :: jsval
  parentResponse :: "row list option"
  columns :: "string list option"
  pivotColumns :: "string list option"

text \<open>
  A \<open>Model\<close> or \<open>Collection\<close> object as the dispatching code sees it: the constructor
  that built it, its attributes, its \<open>_relation\<close>, the calls its \<open>_builder\<close> has received,
  and whether the pivot helpers were mixed in.
\<close>

record inst =
  ctor_of :: ctor
  attributes :: row
  relation_of :: "relation option"
  builder :: "call list"
  pivotHelpers :: bool

definition new_instance :: "ctor \<Rightarrow> inst" where
  "new_instance C =
     \<lparr>ctor_of = C, attributes = Map.empty, relation_of = None, builder = [],
      pivotHelpers = False\<rparr>"

definition result_tableName :: "world \<Rightarrow> inst \<Rightarrow> string" where
  "result_tableName w m = tableName (classes w (ctor_class (ctor_of m)))"

definition result_idAttribute :: "world \<Rightarrow> inst \<Rightarrow> string" where
  "result_idAttribute w m = idAttribute (classes w (ctor_class (ctor_of m)))"

text \<open>\<open>model.id\<close>: the identity attribute of a model; a collection has none.\<close>

definition id_of :: "world \<Rightarrow> inst \<Rightarrow> jsval" where
  "id_of w m =
     (case ctor_of m of
        ModelCtor c \<Rightarrow> getattr (attributes m) (idAttribute (classes w c))
      | CollectionCtor c \<Rightarrow> Undefined)"

subsection \<open>The type guard of \<open>_relatesTo\<close>\<close>

text \<open>
  The operands of \<open>instanceof Model\<close>: a primitive, or the prototype of a constructor.
  \<open>!x\<close> of an object is the primitive \<open>false\<close>, and no primitive is an instance of anything.
\<close>

datatype operand = Prim jsval | Prototype ctor

fun not_op :: "operand \<Rightarrow> operand" where
  "not_op (Prim v) = Prim (JBool (\<not> truthy v))"
| "not_op (Prototype C) = Prim (JBool False)"

fun instanceof_Model :: "operand \<Rightarrow> bool" where
  "instanceof_Model (Prim v) = False"
| "instanceof_Model (Prototype (ModelCtor c)) = True"
| "instanceof_Model (Prototype (CollectionCtor c)) = False"

text \<open>The options hash an accessor passes to \<open>_relatesTo\<close>.\<close>

definition options_hash ::
  "rel_type \<Rightarrow> string \<Rightarrow> string option \<Rightarrow> string option \<Rightarrow> relation" where
  "options_hash t fk ok jt =
     \<lparr>rtype = t, foreignKey = fk, otherKey = ok, joinTableName = jt, modelCtor = None,
      collectionCtor = None, parentIdAttr = None, fkValue = Undefined,
      parentResponse = None, columns = None, pivotColumns = None\<rparr>"

text \<open>
  \<open>_relatesTo(Target, options)\<close> on the model \<open>this\<close>, whose \<open>_isEager\<close> flag is
  \<open>eager\<close>. The guard of the single-entity kinds is written as the source parses:
  \<open>(!Target.prototype) instanceof Model\<close>.
\<close>

definition relatesTo ::
  "world \<Rightarrow> inst \<Rightarrow> bool \<Rightarrow> ctor \<Rightarrow> relation \<Rightarrow> error + inst" where
  "relatesTo w this eager Target0 options =
     (let type = rtype options;
          multi = (type = HasMany \<or> type = BelongsToMany)
      in if \<not> multi \<and> instanceof_Model (not_op (Prototype Target0))
         then Inl RelationTypeMismatch
         else
           let Target = (if multi \<and> instanceof_Model (Prototype Target0)
                         then CollectionCtor (ctor_class Target0) else Target0);
               options1 =
                 (if eager then
                    (if multi
                     then options\<lparr>modelCtor := Some (ModelCtor (ctor_class Target)),
                                  collectionCtor := Some Target\<rparr>
                     else options\<lparr>modelCtor := Some Target\<rparr>)
                      \<lparr>parentIdAttr := Some (result_idAttribute w this)\<rparr>
                  else if type = BelongsTo
                    then options\<lparr>fkValue := getattr (attributes this) (prop_key (otherKey options))\<rparr>
                    else options\<lparr>fkValue := id_of w this\<rparr>)
           in Inr ((new_instance Target)
                     \<lparr>relation_of := Some options1, pivotHelpers := (type = BelongsToMany)\<rparr>))"

definition hasOne ::
  "world \<Rightarrow> inst \<Rightarrow> bool \<Rightarrow> ctor \<Rightarrow> string option \<Rightarrow> error + inst" where
  "hasOne w this eager Target fk =
     relatesTo w this eager Target
       (options_hash HasOne
          (or_default fk (singularize w (result_tableName w this) @ ''_id'')) None None)"

definition hasMany ::
  "world \<Rightarrow> inst \<Rightarrow> bool \<Rightarrow> ctor \<Rightarrow> string option \<Rightarrow> error + inst" where
  "hasMany w this eager Target fk =
     relatesTo w this eager Target
       (options_hash HasMany
          (or_default fk (singularize w (result_tableName w this) @ ''_id'')) None None)"

text \<open>
  \<open>belongsTo\<close> reads \<open>Target.prototype.idAttribute\<close> and the target's table name, so its
  target is given here as an entity type.
\<close>

definition belongsTo ::
  "world \<Rightarrow> inst \<Rightarrow> bool \<Rightarrow> cname \<Rightarrow> string option \<Rightarrow> error + inst" where
  "belongsTo w this eager T ok =
     relatesTo w this eager (ModelCtor T)
       (options_hash BelongsTo (idAttribute (classes w T))
          (Some (or_default ok (singularize w (tableName (classes w T)) @ ''_id''))) None)"

definition belongsToMany ::
  "world \<Rightarrow> inst \<Rightarrow> bool \<Rightarrow> ctor \<Rightarrow> string option \<Rightarrow> string option \<Rightarrow> string option
     \<Rightarrow> error + inst" where
  "belongsToMany w this eager Target jt fk ok =
     relatesTo w this eager Target
       (options_hash BelongsToMany
          (or_default fk (singularize w (tableName (classes w (ctor_class Target))) @ ''_id''))
          (Some (or_default ok (singularize w (result_tableName w this) @ ''_id'')))
          (Some (or_default jt
             (sort_join (result_tableName w this) (tableName (classes w (ctor_class Target)))))))"

section \<open>Relation constraints\<close>

text \<open>\<open>target.query(method, args)\<close>: the call goes to the target's builder.\<close>

definition query_call :: "inst \<Rightarrow> call \<Rightarrow> inst" where
  "query_call target c = target\<lparr>builder := builder target @ [c]\<rparr>"

text \<open>
  \<open>constraints(target, resp)\<close>. A response, when given, is an array and so truthy even when
  empty; reading a property of a missing \<open>_relation\<close> is a TypeError.
\<close>

definition constraints :: "inst \<Rightarrow> row list option \<Rightarrow> error + inst" where
  "constraints target resp =
     (case relation_of target of
        None \<Rightarrow> Inl TypeError
      | Some relation \<Rightarrow>
          (case resp of
             Some rows \<Rightarrow>
               Inr (query_call target
                      (WhereIn (foreignKey relation)
                         (pluck rows (prop_key (parentIdAttr relation)))))
           | None \<Rightarrow>
               Inr (query_call target
                      (Where (foreignKey relation) ''='' (fkValue relation)))))"

text \<open>The columns a builder holds: those named by the \<open>select\<close> calls it has received.\<close>

definition builder_columns :: "call list \<Rightarrow> string list" where
  "builder_columns cs = concat (map (\<lambda>c. case c of Select (Some xs) \<Rightarrow> xs | _ \<Rightarrow> []) cs)"

text \<open>The constraint helper \<open>belongsToMany(target, resp)\<close> of an eager or plain load.\<close>

definition belongsToMany_constraints ::
  "world \<Rightarrow> inst \<Rightarrow> row list option \<Rightarrow> error + inst" where
  "belongsToMany_constraints w target resp =
     (case relation_of target of
        None \<Rightarrow> Inl TypeError
      | Some relation \<Rightarrow>
          (let columns0 = (case columns relation of None \<Rightarrow> [] | Some cs \<Rightarrow> cs);
               tableName1 = result_tableName w target;
               idAttribute1 = result_idAttribute w target;
               otherKey1 = prop_key (otherKey relation);
               foreignKey1 = foreignKey relation;
               joinTableName1 = prop_key (joinTableName relation);
               columns1 = (if builder_columns (builder target) = [] \<and> columns0 = []
                           then columns0 @ [tableName1 @ ''.*''] else columns0);
               columns2 = columns1 @
                 [joinTableName1 @ ''.'' @ otherKey1 @ '' as '' @ ''_pivot_'' @ otherKey1,
                  joinTableName1 @ ''.'' @ foreignKey1 @ '' as '' @ ''_pivot_'' @ foreignKey1];
               columns3 = (case pivotColumns relation of
                             None \<Rightarrow> columns2 | Some pc \<Rightarrow> columns2 @ pc);
               joined = Join joinTableName1 (tableName1 @ ''.'' @ idAttribute1) ''=''
                          (joinTableName1 @ ''.'' @ foreignKey1);
               constraint =
                 (case resp of
                    Some rows \<Rightarrow>
                      WhereIn (joinTableName1 @ ''.'' @ otherKey1) (pluck rows idAttribute1)
                  | None \<Rightarrow>
                      Where (joinTableName1 @ ''.'' @ otherKey1) ''='' (fkValue relation))
           in Inr (target\<lparr>relation_of := Some (relation\<lparr>columns := Some columns3\<rparr>),
                          builder := builder target @ [joined, constraint]\<rparr>)))"

definition addConstraints ::
  "world \<Rightarrow> rel_type \<Rightarrow> inst \<Rightarrow> row list option \<Rightarrow> error + inst" where
  "addConstraints w type target resp =
     (if type \<noteq> BelongsToMany then constraints target resp
      else belongsToMany_constraints w target resp)"

section \<open>The query dispatcher\<close>

record options =
  transacting :: "nat option"
  partial :: bool
  withRelated :: "string list option"

text \<open>
  A \<open>Sync\<close> holds the object being queried and the options; its \<open>query\<close> is that object's
  builder. Construction applies the relation constraint when the object carries a relation
  whose \<open>fkValue\<close> is truthy, then threads the transaction.
\<close>

record sync =
  model :: inst
  sync_options :: options

definition query_of :: "sync \<Rightarrow> call list" where
  "query_of s = builder (model s)"


text \<open>
  \<open>update(attrs, options)\<close>. The first statement chooses between the given attributes and
  the model's; the query then sends the model's attributes.
\<close>

definition update :: "world \<Rightarrow> sync \<Rightarrow> row option \<Rightarrow> options \<Rightarrow> query" where
  "update w s attrs opts =
     (let attrs1 = (case attrs of
                      Some a \<Rightarrow> if partial opts then a else attributes (model s)
                    | None \<Rightarrow> attributes (model s))
      in \<lparr>qtable = result_tableName w (model s),
          qcalls = query_of s @
            [Where2 (result_idAttribute w (model s)) (id_of w (model s)),
             Update (format (classes w (ctor_class (ctor_of (model s))))
                       (extend_hash Map.empty (attributes (model s))))]\<rparr>)"

text \<open>\<open>del()\<close>: \<open>id != null\<close> holds for every value but \<open>undefined\<close> and \<open>null\<close>.\<close>

definition del :: "world \<Rightarrow> sync \<Rightarrow> error + query" where
  "del w s =
     (let wheres = (if id_of w (model s) \<noteq> Undefined \<and> id_of w (model s) \<noteq> Null
                    then Some [result_idAttribute w (model s) \<mapsto> id_of w (model s)]
                    else None)
      in if wheres = None \<and> wheres_length w (query_of s) = 0
         then Inl DestroyWithoutConstraint
         else Inr \<lparr>qtable = result_tableName w (model s),
                   qcalls = query_of s @ [WhereObj wheres, Del]\<rparr>)"

section \<open>Pivot helpers\<close>

text \<open>
  What \<open>attach\<close> and \<open>detach\<close> are given: a model, a hash of attributes or a primitive,
  alone or in an array. An omitted argument is the primitive \<open>undefined\<close>.
\<close>

datatype item = ItemModel inst | ItemHash row | ItemPrim jsval

datatype ids_arg = IdsArray "item list" | IdsOne item

fun is_void :: "ids_arg \<Rightarrow> bool" where
  "is_void (IdsOne (ItemPrim Undefined)) = True"
| "is_void (IdsOne (ItemPrim Null)) = True"
| "is_void _ = False"

fun item_truthy :: "item \<Rightarrow> bool" where
  "item_truthy (ItemPrim v) = truthy v"
| "item_truthy _ = True"

text \<open>\<open>Q.all\<close>: all results in order, or the first failure.\<close>

fun Q_all :: "(error + 'a) list \<Rightarrow> error + 'a list" where
  "Q_all [] = Inr []"
| "Q_all (Inl e # rs) = Inl e"
| "Q_all (Inr x # rs) = (case Q_all rs of Inl e \<Rightarrow> Inl e | Inr xs \<Rightarrow> Inr (x # xs))"

text \<open>The join row built for one item, in the order of the source's statements.\<close>

definition pivot_data :: "relation \<Rightarrow> item \<Rightarrow> row" where
  "pivot_data pivot it =
     (let data = [prop_key (otherKey pivot) \<mapsto> fkValue pivot]
      in case it of
           ItemModel m \<Rightarrow> data(foreignKey pivot \<mapsto> fkValue pivot)
         | ItemHash h \<Rightarrow> extend_hash data h
         | ItemPrim v \<Rightarrow> if truthy v then data(foreignKey pivot \<mapsto> v) else data)"

text \<open>\<open>if (options && options.transacting) builder.transacting(options.transacting)\<close>.\<close>

definition transacting_calls :: "options option \<Rightarrow> call list" where
  "transacting_calls opts =
     (case opts of
        None \<Rightarrow> []
      | Some os \<Rightarrow> (case transacting os of None \<Rightarrow> [] | Some t \<Rightarrow> [Transacting t]))"

definition handler ::
  "inst \<Rightarrow> string \<Rightarrow> ids_arg \<Rightarrow> options option \<Rightarrow> error + query list" where
  "handler this method ids opts =
     (if is_void ids \<and> method = ''insert'' then Inr []
      else
        let ids1 = (case ids of
                      IdsArray xs \<Rightarrow> xs
                    | IdsOne x \<Rightarrow> if item_truthy x then [x] else [])
        in Q_all (map (\<lambda>it.
             case relation_of this of
               None \<Rightarrow> Inl TypeError
             | Some pivot \<Rightarrow>
                 (let data = pivot_data pivot it;
                      tx = transacting_calls opts
                  in if method = ''delete''
                     then Inr \<lparr>qtable = prop_key (joinTableName pivot),
                               qcalls = tx @ [WhereObj (Some data), Del]\<rparr>
                     else Inr \<lparr>qtable = prop_key (joinTableName pivot),
                               qcalls = tx @ [Insert data]\<rparr>)) ids1))"

definition attach :: "inst \<Rightarrow> ids_arg \<Rightarrow> options option \<Rightarrow> error + query list" where
  "attach this ids opts = handler this ''insert'' ids opts"

definition detach :: "inst \<Rightarrow> ids_arg \<Rightarrow> options option \<Rightarrow> error + query list" where
  "detach this ids opts = handler this ''delete'' ids opts"

section \<open>Eager loading\<close>

text \<open>
  The entity graph that eager loading builds: a model with its attributes and its
  \<open>relations\<close>, where a relation holds a model, a collection built by a collection
  constructor, or \<open>undefined\<close>.
\<close>

datatype entity = Entity (cls: cname) (attrs: row) (relations: "string \<rightharpoonup> related")
  and related = RModel entity | RCollection ctor "entity list" | RUndefined

text \<open>The object that \<open>load\<close> or a nested level resolves relations onto.\<close>

datatype parent_obj = ParentCollection cname "entity list" | ParentModel entity

text \<open>One relation fetch: its name, the query it issued, and the fetches of the next level.\<close>

datatype fetched = Fetched (fname: string) (fquery: query) (nested: "fetched list")

text \<open>
  \<open>new modelCtor(row, {parse: true})\<close>, \<open>new modelCtor()\<close> and
  \<open>new collectionCtor(models, {parse: true})\<close>; a missing constructor is a TypeError.
  The accessors of an entity type hand a model type to \<open>hasOne\<close> and \<open>belongsTo\<close>,
  so the constructor kept in \<open>modelCtor\<close> during an eager load is that of a model
  (lemma \<open>declared_modelCtor_is_model\<close>), and the object it builds is a model of its class
  holding the parsed row.
\<close>

definition new_model :: "ctor \<Rightarrow> row \<Rightarrow> entity" where
  "new_model C r = Entity (ctor_class C) r Map.empty"

definition entity_id :: "world \<Rightarrow> entity \<Rightarrow> jsval" where
  "entity_id w m = getattr (attrs m) (idAttribute (classes w (cls m)))"

text \<open>
  The collection constructor hands its models to Backbone's \<open>set\<close>, which files every
  model under its id and leaves out a model whose id is already filed. The ids are
  property keys, so they are compared as the runtime prints them. A model with no id
  (\<open>undefined\<close> or \<open>null\<close>) is filed under its client id alone, which no other
  model shares, and is always kept.
\<close>

fun show_nat :: "nat \<Rightarrow> string" where
  "show_nat n =
     (if n < 10 then [''0123456789'' ! n]
      else show_nat (n div 10) @ [''0123456789'' ! (n mod 10)])"

declare show_nat.simps [simp del]

fun key_string :: "jsval \<Rightarrow> string" where
  "key_string Undefined = ''undefined''"
| "key_string Null = ''null''"
| "key_string (JBool b) = (if b then ''true'' else ''false'')"
| "key_string (Num n) = (if n < 0 then CHR ''-'' # show_nat (nat (- n)) else show_nat (nat n))"
| "key_string (Str s) = s"

fun collection_set :: "world \<Rightarrow> string list \<Rightarrow> entity list \<Rightarrow> entity list" where
  "collection_set w byId [] = []"
| "collection_set w byId (m # ms) =
     (if entity_id w m = Undefined \<or> entity_id w m = Null
      then m # collection_set w byId ms
      else if key_string (entity_id w m) \<in> set byId
      then collection_set w byId ms
      else m # collection_set w (key_string (entity_id w m) # byId) ms)"

definition new_collection :: "world \<Rightarrow> ctor option \<Rightarrow> entity list \<Rightarrow> error + related" where
  "new_collection w C ms =
     (case C of
        None \<Rightarrow> Inl TypeError
      | Some c \<Rightarrow> Inr (RCollection c (collection_set w [] ms)))"

definition set_relation :: "entity \<Rightarrow> string \<Rightarrow> related \<Rightarrow> entity" where
  "set_relation m name r = Entity (cls m) (attrs m) ((relations m)(name \<mapsto> r))"

text \<open>\<open>skim\<close> keeps the own keys of each row, which is all a row of this model has.\<close>

definition skim :: "row list \<Rightarrow> row list" where
  "skim data = map (\<lambda>obj. obj) data"

text \<open>
  Backbone's \<open>where\<close> and \<open>findWhere\<close> for a one-key hash, as mixed into
  \<open>RelatedModels\<close>: the models whose attribute is strictly equal to the value.
\<close>

definition where_models :: "entity list \<Rightarrow> string \<Rightarrow> jsval \<Rightarrow> entity list" where
  "where_models ms k v = filter (\<lambda>m. getattr (attrs m) k = v) ms"

definition findWhere :: "entity list \<Rightarrow> string \<Rightarrow> jsval \<Rightarrow> entity option" where
  "findWhere ms k v = List.find (\<lambda>m. getattr (attrs m) k = v) ms"

definition eagerRelated ::
  "world \<Rightarrow> rel_type \<Rightarrow> inst \<Rightarrow> entity list \<Rightarrow> jsval \<Rightarrow> error + related" where
  "eagerRelated w type target eager ident =
     (case relation_of target of
        None \<Rightarrow> Inl TypeError
      | Some relation \<Rightarrow>
          (case type of
             HasOne \<Rightarrow>
               Inr (case findWhere eager (foreignKey relation) ident of
                      None \<Rightarrow> RUndefined | Some m \<Rightarrow> RModel m)
           | BelongsTo \<Rightarrow>
               Inr (case findWhere eager (foreignKey relation) ident of
                      None \<Rightarrow> RUndefined | Some m \<Rightarrow> RModel m)
           | HasMany \<Rightarrow>
               new_collection w (collectionCtor relation)
                 (where_models eager (foreignKey relation) ident)
           | BelongsToMany \<Rightarrow>
               new_collection w (collectionCtor relation)
                 (where_models eager (''_pivot_'' @ prop_key (otherKey relation)) ident)))"

text \<open>The inner loop of \<open>matchResponses\<close> over the models of a parent collection.\<close>

fun match_models ::
  "world \<Rightarrow> string \<Rightarrow> inst \<Rightarrow> relation \<Rightarrow> entity list \<Rightarrow> entity list \<Rightarrow> error + entity list" where
  "match_models w name relation r relatedModels [] = Inr []"
| "match_models w name relation r relatedModels (m # ms) =
     (let ident = (if rtype r = BelongsTo then getattr (attrs m) (prop_key (otherKey r))
                   else entity_id w m)
      in case eagerRelated w (rtype r) relation relatedModels ident of
           Inl e \<Rightarrow> Inl e
         | Inr result \<Rightarrow>
             (case match_models w name relation r relatedModels ms of
                Inl e \<Rightarrow> Inl e
              | Inr ms1 \<Rightarrow> Inr (set_relation m name result # ms1)))"

text \<open>One turn of the outer loop: the response of one relation is paired with the parent.\<close>

definition match_response ::
  "world \<Rightarrow> parent_obj \<Rightarrow> string \<times> inst \<times> entity list \<Rightarrow> error + parent_obj" where
  "match_response w parent x =
     (case x of (name, relation, models) \<Rightarrow>
        (case relation_of relation of
           None \<Rightarrow> Inl TypeError
         | Some r \<Rightarrow>
             (case parent of
                ParentCollection c ms \<Rightarrow>
                  (case match_models w name relation r models ms of
                     Inl e \<Rightarrow> Inl e
                   | Inr ms1 \<Rightarrow> Inr (ParentCollection c ms1))
              | ParentModel p \<Rightarrow>
                  if rtype r = HasOne \<or> rtype r = BelongsTo then
                    (case models of
                       m # rest \<Rightarrow> Inr (ParentModel (set_relation p name (RModel m)))
                     | [] \<Rightarrow>
                         (case modelCtor r of
                            None \<Rightarrow> Inl TypeError
                          | Some C \<Rightarrow>
                              Inr (ParentModel
                                     (set_relation p name (RModel (new_model C Map.empty))))))
                  else
                    (case new_collection w (collectionCtor r) models of
                       Inl e \<Rightarrow> Inl e
                     | Inr coll \<Rightarrow> Inr (ParentModel (set_relation p name coll))))))"

fun matchResponses ::
  "world \<Rightarrow> parent_obj \<Rightarrow> (string \<times> inst \<times> entity list) list \<Rightarrow> error + parent_obj" where
  "matchResponses w parent [] = Inr parent"
| "matchResponses w parent (x # xs) =
     (case match_response w parent x of
        Inl e \<Rightarrow> Inl e
      | Inr parent1 \<Rightarrow> matchResponses w parent1 xs)"

subsection \<open>Building the relations of one level\<close>

text \<open>
  An accessor called on the target while its \<open>_isEager\<close> flag is set; \<open>target[name]()\<close>
  is a TypeError when the entity type declares no such accessor.
\<close>

definition call_accessor :: "world \<Rightarrow> inst \<Rightarrow> bool \<Rightarrow> accessor \<Rightarrow> error + inst option" where
  "call_accessor w this eager a =
     (case a of
        CallsHasOne T fk \<Rightarrow> map_sum id Some (hasOne w this eager (ModelCtor T) fk)
      | CallsHasMany T fk \<Rightarrow> map_sum id Some (hasMany w this eager T fk)
      | CallsBelongsTo T ok \<Rightarrow> map_sum id Some (belongsTo w this eager T ok)
      | CallsBelongsToMany T jt fk ok \<Rightarrow>
          map_sum id Some (belongsToMany w this eager T jt fk ok)
      | ReturnsNothing \<Rightarrow> Inr None)"

definition call_named :: "world \<Rightarrow> inst \<Rightarrow> string \<Rightarrow> error + inst option" where
  "call_named w target name =
     (case accessors (classes w (ctor_class (ctor_of target))) name of
        None \<Rightarrow> Inl TypeError
      | Some a \<Rightarrow> call_accessor w target True a)"

text \<open>\<open>relation._relation.parentResponse = this.parentResponse\<close>.\<close>

fun set_parentResponse :: "inst option \<Rightarrow> row list \<Rightarrow> error + inst option" where
  "set_parentResponse None pr = Inl TypeError"
| "set_parentResponse (Some r) pr =
     (case relation_of r of
        None \<Rightarrow> Inl TypeError
      | Some rel \<Rightarrow> Inr (Some (r\<lparr>relation_of := Some (rel\<lparr>parentResponse := Some pr\<rparr>)\<rparr>)))"

text \<open>
  \<open>handled\<close> and \<open>subRelated\<close> start as \<open>{}\<close>, so reading them at a name that every
  object inherits from \<open>Object.prototype\<close> gives the inherited value, a function or an
  object, which is truthy.
\<close>

definition object_prototype_names :: "string list" where
  "object_prototype_names =
     [''constructor'', ''toString'', ''toLocaleString'', ''valueOf'', ''hasOwnProperty'',
      ''isPrototypeOf'', ''propertyIsEnumerable'', ''__proto__'', ''__defineGetter__'',
      ''__defineSetter__'', ''__lookupGetter__'', ''__lookupSetter__'']"

definition inherited_name :: "string \<Rightarrow> bool" where
  "inherited_name n = (n \<in> set object_prototype_names)"

text \<open>
  \<open>subRelated[name] || (subRelated[name] = []); subRelated[name].push(deeper)\<close>: at an
  inherited name nothing is assigned, and the inherited value has no \<open>push\<close> to call.
\<close>

definition push_subRelated ::
  "(string \<rightharpoonup> string list) \<Rightarrow> string \<Rightarrow> string \<Rightarrow> error + (string \<rightharpoonup> string list)" where
  "push_subRelated subRelated name deeper =
     (if inherited_name name then Inl TypeError
      else Inr (subRelated(name \<mapsto>
                  (case subRelated name of None \<Rightarrow> [] | Some l \<Rightarrow> l) @ [deeper])))"

text \<open>
  The first loop of \<open>processRelated\<close>, over the requested paths. \<open>handled\<close> keeps the
  relations in the order their names were first seen; \<open>subRelated\<close> collects the deeper
  paths of each name. \<open>if (handled[name]) continue\<close> skips a name that was handled before,
  and a name that every object inherits.
\<close>

fun related_loop ::
  "world \<Rightarrow> inst \<Rightarrow> row list \<Rightarrow> string list \<Rightarrow> (string \<times> inst) list \<Rightarrow> (string \<rightharpoonup> string list)
     \<Rightarrow> error + (string \<times> inst) list \<times> (string \<rightharpoonup> string list)" where
  "related_loop w target pr [] handled subRelated = Inr (handled, subRelated)"
| "related_loop w target pr (path # rest) handled subRelated =
     (case split_dot path of
        [] \<Rightarrow> Inl TypeError
      | name # deeper \<Rightarrow>
          (case (if deeper \<noteq> [] then push_subRelated subRelated name (join_dot deeper)
                 else Inr subRelated) of
             Inl e \<Rightarrow> Inl e
           | Inr subRelated1 \<Rightarrow>
               if map_of handled name \<noteq> None \<or> inherited_name name
               then related_loop w target pr rest handled subRelated1
               else
                 (case call_named w target name of
                    Inl e \<Rightarrow> Inl e
                  | Inr relation \<Rightarrow>
                      (case set_parentResponse relation pr of
                         Inl e \<Rightarrow> Inl e
                       | Inr relation1 \<Rightarrow>
                           (case relation1 of
                              None \<Rightarrow> Inl (UnknownRelation name)
                            | Some r \<Rightarrow>
                                related_loop w target pr rest (handled @ [(name, r)])
                                  subRelated1)))))"

text \<open>
  The second loop, \<open>for (name in handled)\<close>, enumerates the keys that are array indices
  first, in ascending order, and the other keys after them in the order they were added.
\<close>

definition is_digit :: "char \<Rightarrow> bool" where
  "is_digit c = (c \<in> set ''0123456789'')"

definition index_value :: "string \<Rightarrow> nat" where
  "index_value s = foldl (\<lambda>n c. 10 * n + ((of_char c :: nat) - 48)) 0 s"

definition is_index :: "string \<Rightarrow> bool" where
  "is_index s =
     (case s of
        [] \<Rightarrow> False
      | c # cs \<Rightarrow>
          list_all is_digit s \<and> (cs = [] \<or> c \<noteq> CHR ''0'')
          \<and> index_value s < 4294967295)"

definition for_in_order :: "(string \<times> 'a) list \<Rightarrow> (string \<times> 'a) list" where
  "for_in_order h =
     sort_key (\<lambda>x. index_value (fst x)) (filter (\<lambda>x. is_index (fst x)) h)
     @ filter (\<lambda>x. \<not> is_index (fst x)) h"

subsection \<open>Fetching and recursing\<close>

text \<open>
  The parent of a nested level is the relation object that was just fetched: a collection
  with the fetched models, or the empty model built by \<open>new Target()\<close>. Nested matching
  writes into the models of a collection parent, and into that empty model otherwise.
\<close>

definition as_parent :: "inst \<Rightarrow> entity list \<Rightarrow> parent_obj" where
  "as_parent this models =
     (case ctor_of this of
        CollectionCtor c \<Rightarrow> ParentCollection c models
      | ModelCtor c \<Rightarrow> ParentModel (Entity c Map.empty Map.empty))"

definition models_after :: "parent_obj \<Rightarrow> entity list \<Rightarrow> entity list" where
  "models_after parent models =
     (case parent of ParentCollection c ms \<Rightarrow> ms | ParentModel p \<Rightarrow> models)"

text \<open>
  Each deeper path is shorter than the path it was cut from, which bounds the recursion of
  \<open>processRelated\<close> through \<open>fetch\<close>.
\<close>

definition weight :: "string list \<Rightarrow> nat" where
  "weight ps = sum_list (map (\<lambda>p. Suc (length p)) ps)"

definition sub_weight :: "(string \<rightharpoonup> string list) \<Rightarrow> string \<Rightarrow> nat" where
  "sub_weight s n = (case s n of None \<Rightarrow> 0 | Some l \<Rightarrow> weight l)"

lemma split_dot_not_Nil: "split_dot s \<noteq> []"
  by (induction s) auto

lemma join_split_dot: "join_dot (split_dot s) = s"
proof (induction s)
  case Nil
  then show ?case by simp
next
  case (Cons c cs)
  obtain p ps where sp: "split_dot cs = p # ps"
    using split_dot_not_Nil [of cs] by (cases "split_dot cs") auto
  show ?case
  proof (cases "c = CHR ''.''")
    case True
    then show ?thesis using Cons sp by simp
  next
    case False
    then show ?thesis using Cons sp by (cases ps) auto
  qed
qed

text \<open>The same equation with the split of the rest taken once, for evaluation.\<close>

lemma split_dot_Cons_case:
  "split_dot (c # cs) =
     (case split_dot cs of
        [] \<Rightarrow> [[c]]
      | p # ps \<Rightarrow> if c = CHR ''.'' then [] # p # ps else (c # p) # ps)"
  using split_dot_not_Nil [of cs] by (cases "split_dot cs") auto

declare split_dot.simps(2) [simp del]

declare split_dot_Cons_case [simp]

lemma suffix_shorter:
  assumes "split_dot path = name # deeper" and "deeper \<noteq> []"
  shows "Suc (length (join_dot deeper)) \<le> length path"
proof -
  obtain q qs where d: "deeper = q # qs" using assms(2) by (cases deeper) auto
  have "path = join_dot (name # q # qs)"
    using join_split_dot [of path] assms(1) d by simp
  then show ?thesis using d by simp
qed

lemma related_loop_weight:
  "related_loop w target pr ps handled s = Inr (handled1, s1) \<Longrightarrow>
   sub_weight s1 n \<le> sub_weight s n + sum_list (map length ps)"
proof (induction ps arbitrary: handled s)
  case Nil
  then show ?case by simp
next
  case (Cons path rest)
  obtain name deeper where sp: "split_dot path = name # deeper"
    using split_dot_not_Nil [of path] by (cases "split_dot path") auto
  obtain s2 where push:
      "(if deeper \<noteq> [] then push_subRelated s name (join_dot deeper) else Inr s) = Inr s2"
    using Cons.prems sp by (auto split: sum.splits)
  have step: "sub_weight s2 n \<le> sub_weight s n + length path"
  proof (cases "deeper = []")
    case True
    then show ?thesis using push by simp
  next
    case False
    have "Suc (length (join_dot deeper)) \<le> length path"
      using suffix_shorter [OF sp False] .
    then show ?thesis using False push
      by (auto simp add: push_subRelated_def sub_weight_def weight_def
          split: option.splits if_splits)
  qed
  obtain h2 where rec: "related_loop w target pr rest h2 s2 = Inr (handled1, s1)"
    using Cons.prems sp push
    by (auto simp add: Let_def split: if_splits sum.splits option.splits)
  have "sub_weight s1 n \<le> sub_weight s2 n + sum_list (map length rest)"
    using Cons.IH [OF rec] .
  then show ?case using step by simp
qed

lemma set_for_in_order: "set (for_in_order h) = set h"
  by (auto simp add: for_in_order_def)

lemma sub_weight_less:
  assumes "related_loop w target pr ps [] Map.empty = Inr (handled, s)"
    and "x \<in> set (for_in_order handled)"
  shows "sub_weight s n < weight ps"
proof -
  have "ps \<noteq> []" using assms by (cases ps) (auto simp add: set_for_in_order)
  moreover have "weight ps = sum_list (map length ps) + length ps"
    by (induction ps) (auto simp add: weight_def)
  ultimately have "sum_list (map length ps) < weight ps"
    by simp
  moreover have "sub_weight s n \<le> sum_list (map length ps)"
    using related_loop_weight [OF assms(1), of n] by (simp add: sub_weight_def)
  ultimately show ?thesis by simp
qed

text \<open>
  \<open>processRelated(options)\<close> on an \<open>EagerRelation\<close> of a parent, a target and the parent's
  rows, and \<open>fetch(options)\<close> called on one relation of \<open>handled\<close>. Both return what the
  promise resolves to, or the failure; \<open>processRelated\<close> returns the fetches of its level
  with the parent as matching left it, \<open>fetch\<close> the query it issued, the fetches nested
  under it and the models it built.
\<close>

function processRelated ::
  "world \<Rightarrow> parent_obj \<Rightarrow> inst \<Rightarrow> row list \<Rightarrow> options \<Rightarrow> error + fetched list \<times> parent_obj"
  and fetch ::
  "world \<Rightarrow> inst \<Rightarrow> options \<Rightarrow> error + query \<times> fetched list \<times> entity list"
where
  "processRelated w parent target parentResp opts =
     (case withRelated opts of
        None \<Rightarrow> Inl TypeError
      | Some paths \<Rightarrow>
          (case related_loop w target parentResp paths [] Map.empty of
             Inl e \<Rightarrow> Inl e
           | Inr (handled, subRelated) \<Rightarrow>
               (case Q_all (map (\<lambda>(name, rel).
                        case fetch w rel \<lparr>transacting = transacting opts, partial = False,
                                          withRelated = subRelated name\<rparr> of
                          Inl e \<Rightarrow> Inl e
                        | Inr (q, logs, models) \<Rightarrow>
                            Inr (Fetched name q logs, (name, rel, models)))
                      (for_in_order handled)) of
                  Inl e \<Rightarrow> Inl e
                | Inr results \<Rightarrow>
                    (case matchResponses w parent (map snd results) of
                       Inl e \<Rightarrow> Inl e
                     | Inr parent1 \<Rightarrow> Inr (map fst results, parent1)))))"
| "fetch w this opts =
     (case relation_of this of
        None \<Rightarrow> Inl TypeError
      | Some rel \<Rightarrow>
          (case addConstraints w (rtype rel) this (parentResponse rel) of
             Inl e \<Rightarrow> Inl e
           | Inr this1 \<Rightarrow>
               (let q = \<lparr>qtable = result_tableName w this1,
                         qcalls = builder this1 @
                           [Select (case relation_of this1 of
                                      None \<Rightarrow> None | Some rel1 \<Rightarrow> columns rel1)]\<rparr>;
                    resp = run_select w q
                in if resp \<noteq> [] then
                     (case modelCtor rel of
                        None \<Rightarrow> Inl TypeError
                      | Some C \<Rightarrow>
                          (let models = map (new_model C) (skim resp)
                           in case withRelated opts of
                                None \<Rightarrow> Inr (q, [], models)
                              | Some paths \<Rightarrow>
                                  (case processRelated w (as_parent this models)
                                          (new_instance C) resp opts of
                                     Inl e \<Rightarrow> Inl e
                                   | Inr (logs, parent1) \<Rightarrow>
                                       Inr (q, logs, models_after parent1 models))))
                   else Inr (q, [], []))))"
  by pat_completeness auto
termination
proof (relation "measure (\<lambda>x. case x of
          Inl (w, parent, target, pr, opts) \<Rightarrow>
            2 * (case withRelated opts of None \<Rightarrow> 0 | Some ps \<Rightarrow> weight ps) + 1
        | Inr (w, this, opts) \<Rightarrow>
            2 * (case withRelated opts of None \<Rightarrow> 0 | Some ps \<Rightarrow> weight ps) + 2)",
      goal_cases)
  case 1
  then show ?case by simp
next
  case (2 w parent target parentResp opts paths x2 handled subRelated x name rel)
  then show ?case
    using sub_weight_less [of w target parentResp paths handled subRelated "(name, rel)" name]
    by (auto simp add: sub_weight_def split: option.splits)
next
  case 3
  then show ?case by simp
qed

declare processRelated.simps [simp del] fetch.simps [simp del]

text \<open>
  \<open>load(relations, options)\<close> on a collection of models of one entity type, or on one
  model. The rows handed on are the shallow \<open>toJSON\<close> of the models.
\<close>

datatype relations_arg = RelArray "string list" | RelOne "string option"

definition load ::
  "world \<Rightarrow> parent_obj \<Rightarrow> relations_arg \<Rightarrow> options \<Rightarrow> error + fetched list \<times> parent_obj" where
  "load w this rels opts =
     (let relations1 = (case rels of
                          RelArray ps \<Rightarrow> ps
                        | RelOne None \<Rightarrow> []
                        | RelOne (Some p) \<Rightarrow> if p = [] then [] else [p]);
          opts1 = opts\<lparr>withRelated := Some relations1\<rparr>
      in case this of
           ParentCollection c ms \<Rightarrow>
             processRelated w this (new_instance (ModelCtor c)) (map attrs ms) opts1
         | ParentModel m \<Rightarrow>
             processRelated w this ((new_instance (ModelCtor (cls m)))\<lparr>attributes := attrs m\<rparr>)
               [attrs m] opts1)"

subsection \<open>What a level was asked for\<close>

text \<open>
  The name at this level of a requested path, and the deeper paths that a list of
  requested paths holds for one name, in the order of the list.
\<close>

definition first_name :: "string \<Rightarrow> string" where
  "first_name p = (case split_dot p of [] \<Rightarrow> [] | n # d \<Rightarrow> n)"

definition deeper_paths :: "string \<Rightarrow> string list \<Rightarrow> string list" where
  "deeper_paths n ps =
     concat (map (\<lambda>p. case split_dot p of
                         [] \<Rightarrow> []
                       | m # d \<Rightarrow> if m = n \<and> d \<noteq> [] then [join_dot d] else []) ps)"

text \<open>The options hash that \<open>processRelated\<close> hands to the fetch of one name.\<close>

definition level_opts :: "options \<Rightarrow> string list option \<Rightarrow> options" where
  "level_opts opts sub = \<lparr>transacting = transacting opts, partial = False, withRelated = sub\<rparr>"

section \<open>An example store\<close>

text \<open>
  Users with a profile, posts and roles; posts with comments and tags; profiles with
  avatars and badges; roles with permissions; authors whose posts accessor is named
  \<open>valueOf\<close>. User 1 has the only profile and both posts; two users share role 7, so
  the join answers that role once per user.
\<close>

definition drop_s :: "string \<Rightarrow> string" where
  "drop_s s = (if s \<noteq> [] \<and> last s = CHR ''s'' then butlast s else s)"

definition count_wheres :: "call list \<Rightarrow> nat" where
  "count_wheres cs =
     length (filter (\<lambda>c. case c of
                WhereIn k vs \<Rightarrow> True | Where k oper v \<Rightarrow> True | Where2 k v \<Rightarrow> True
              | WhereObj (Some obj) \<Rightarrow> True | _ \<Rightarrow> False) cs)"

definition example_classes :: "cname \<Rightarrow> class_def" where
  "example_classes c =
     (if c = ''User'' then
        \<lparr>tableName = ''users'', idAttribute = ''id'',
         accessors = [''profile'' \<mapsto> CallsHasOne ''Profile'' None,
                      ''posts'' \<mapsto> CallsHasMany (ModelCtor ''Post'') None,
                      ''roles'' \<mapsto> CallsBelongsToMany (ModelCtor ''Role'') None None None],
         format = (\<lambda>a. a)\<rparr>
      else if c = ''Post'' then
        \<lparr>tableName = ''posts'', idAttribute = ''id'',
         accessors = [''comments'' \<mapsto> CallsHasMany (ModelCtor ''Comment'') None,
                      ''tags'' \<mapsto> CallsHasMany (ModelCtor ''Tag'') None],
         format = (\<lambda>a. a)\<rparr>
      else if c = ''Role'' then
        \<lparr>tableName = ''roles'', idAttribute = ''id'',
         accessors = [''permissions'' \<mapsto> CallsHasMany (ModelCtor ''Permission'') None],
         format = (\<lambda>a. a)\<rparr>
      else if c = ''Profile'' then
        \<lparr>tableName = ''profiles'', idAttribute = ''id'',
         accessors = [''avatars'' \<mapsto> CallsHasMany (ModelCtor ''Avatar'') None,
                      ''badges'' \<mapsto> CallsHasMany (ModelCtor ''Badge'') None],
         format = (\<lambda>a. a)\<rparr>
      else if c = ''Avatar'' then
        \<lparr>tableName = ''avatars'', idAttribute = ''id'', accessors = Map.empty,
         format = (\<lambda>a. a)\<rparr>
      else if c = ''Badge'' then
        \<lparr>tableName = ''badges'', idAttribute = ''id'', accessors = Map.empty,
         format = (\<lambda>a. a)\<rparr>
      else if c = ''Author'' then
        \<lparr>tableName = ''authors'', idAttribute = ''id'',
         accessors = [''valueOf'' \<mapsto> CallsHasMany (ModelCtor ''Post'') None],
         format = (\<lambda>a. a)\<rparr>
      else if c = ''Comment'' then
        \<lparr>tableName = ''comments'', idAttribute = ''id'', accessors = Map.empty,
         format = (\<lambda>a. a)\<rparr>
      else if c = ''Tag'' then
        \<lparr>tableName = ''tags'', idAttribute = ''id'', accessors = Map.empty,
         format = (\<lambda>a. a)\<rparr>
      else
        \<lparr>tableName = ''permissions'', idAttribute = ''id'', accessors = Map.empty,
         format = (\<lambda>a. a)\<rparr>)"

definition example_rows :: "query \<Rightarrow> row list" where
  "example_rows q =
     (if qtable q = ''profiles'' then
        (if qcalls q = [WhereIn ''user_id'' [Num 2], Select None] then []
         else [[''id'' \<mapsto> Num 10, ''user_id'' \<mapsto> Num 1]])
      else if qtable q = ''posts'' then
        [[''id'' \<mapsto> Num 10, ''user_id'' \<mapsto> Num 1], [''id'' \<mapsto> Num 11, ''user_id'' \<mapsto> Num 1]]
      else if qtable q = ''roles'' then
        [[''id'' \<mapsto> Num 7, ''_pivot_user_id'' \<mapsto> Num 1, ''_pivot_role_id'' \<mapsto> Num 7],
         [''id'' \<mapsto> Num 7, ''_pivot_user_id'' \<mapsto> Num 2, ''_pivot_role_id'' \<mapsto> Num 7]]
      else if qtable q = ''comments'' then [[''id'' \<mapsto> Num 20, ''post_id'' \<mapsto> Num 10]]
      else if qtable q = ''avatars'' then [[''id'' \<mapsto> Num 30, ''profile_id'' \<mapsto> Num 10]]
      else if qtable q = ''badges'' then [[''id'' \<mapsto> Num 40, ''profile_id'' \<mapsto> Num 10]]
      else [])"

definition example_world :: world where
  "example_world =
     \<lparr>classes = example_classes, singularize = drop_s, wheres_length = count_wheres,
      run_select = example_rows\<rparr>"

definition no_options :: options where
  "no_options = \<lparr>transacting = None, partial = False, withRelated = None\<rparr>"

definition two_users :: parent_obj where
  "two_users = ParentCollection ''User''
     [Entity ''User'' [''id'' \<mapsto> Num 1] Map.empty, Entity ''User'' [''id'' \<mapsto> Num 2] Map.empty]"




definition user2 :: entity where
  "user2 = Entity ''User'' [''id'' \<mapsto> Num 2] Map.empty"

text \<open>The roles relation of user 1, as \<open>user.roles()\<close> builds it outside an eager load.\<close>

definition roles_of_user1 :: relation where
  "roles_of_user1 =
     (options_hash BelongsToMany ''role_id'' (Some ''user_id'') (Some ''roles_users''))
       \<lparr>fkValue := Num 1\<rparr>"

lemmas eager_defs = load_def call_named_def call_accessor_def hasOne_def hasMany_def belongsTo_def
  belongsToMany_def relatesTo_def options_hash_def new_instance_def result_tableName_def
  result_idAttribute_def addConstraints_def constraints_def belongsToMany_constraints_def
  builder_columns_def query_call_def pluck_def
  getattr_def prop_key_def or_default_def skim_def new_model_def as_parent_def models_after_def
  match_response_def eagerRelated_def findWhere_def where_models_def entity_id_def
  set_relation_def new_collection_def sort_join_def Let_def show_nat.simps
  inherited_name_def object_prototype_names_def push_subRelated_def for_in_order_def
  is_index_def is_digit_def
  example_world_def example_classes_def example_rows_def drop_s_def no_options_def two_users_def
  user2_def

section \<open>Properties of the relation accessors\<close>

text \<open>
  C4. \<open>hasOne\<close> called with a collection type, and \<open>_relatesTo\<close> called for a
  \<open>belongsTo\<close> relation with a collection type, do not fail: each returns a new object
  of the collection type it was given, carrying the relation. The error
  \<open>RelationTypeMismatch\<close> is never returned, because the guard negates the prototype
  before testing it.
\<close>

theorem single_relation_accepts_collection_target:
  "(\<exists>t. hasOne w this eager (CollectionCtor c) fk = Inr t \<and> ctor_of t = CollectionCtor c)
   \<and> (\<exists>t. relatesTo w this eager (CollectionCtor c) (options_hash BelongsTo k ok jt) = Inr t
          \<and> ctor_of t = CollectionCtor c)
   \<and> relatesTo w this eager Target options \<noteq> Inl RelationTypeMismatch"
  by (simp add: hasOne_def relatesTo_def options_hash_def new_instance_def Let_def)

section \<open>Properties of the query dispatcher\<close>

text \<open>
  C6. \<open>update(attrs, options)\<close> with \<open>options.partial\<close> set and explicit attributes
  does not send only those attributes: whatever \<open>attrs\<close> holds, the query constrains by
  identity equality and sends the model's full formatted attribute map.
\<close>

theorem update_sends_all_attributes:
  "update w s (Some a) (opts\<lparr>partial := True\<rparr>) =
     \<lparr>qtable = result_tableName w (model s),
      qcalls = query_of s @
        [Where2 (result_idAttribute w (model s)) (id_of w (model s)),
         Update (format (classes w (ctor_class (ctor_of (model s)))) (attributes (model s)))]\<rparr>"
  by (simp add: update_def extend_hash_def)

text \<open>
  C9. A delete on an object with no identity value whose query holds no where-predicate
  fails with \<open>DestroyWithoutConstraint\<close> and issues nothing. With an identity value the
  delete is issued with the identity equality added to the query; with none, and a query
  that already holds where-predicates, it is issued on that query as it is, after a
  \<open>where(undefined)\<close>.
\<close>

theorem del_guard:
  "((id_of w (model s) = Undefined \<or> id_of w (model s) = Null)
      \<and> wheres_length w (query_of s) = 0
      \<longrightarrow> del w s = Inl DestroyWithoutConstraint)
   \<and> (id_of w (model s) \<noteq> Undefined \<and> id_of w (model s) \<noteq> Null
      \<longrightarrow> del w s = Inr \<lparr>qtable = result_tableName w (model s),
             qcalls = query_of s @
               [WhereObj (Some [result_idAttribute w (model s) \<mapsto> id_of w (model s)]), Del]\<rparr>)
   \<and> ((id_of w (model s) = Undefined \<or> id_of w (model s) = Null)
      \<and> wheres_length w (query_of s) \<noteq> 0
      \<longrightarrow> del w s = Inr \<lparr>qtable = result_tableName w (model s),
             qcalls = query_of s @ [WhereObj None, Del]\<rparr>)"
  by (auto simp add: del_def Let_def)

theorem del_guard_witness:
  "del example_world
     \<lparr>model = new_instance (CollectionCtor ''User''), sync_options = no_options\<rparr>
     = Inl DestroyWithoutConstraint
   \<and> del example_world
       \<lparr>model = (new_instance (ModelCtor ''User''))\<lparr>attributes := [''id'' \<mapsto> Num 1]\<rparr>,
        sync_options = no_options\<rparr>
     = Inr \<lparr>qtable = ''users'', qcalls = [WhereObj (Some [''id'' \<mapsto> Num 1]), Del]\<rparr>
   \<and> del example_world
       \<lparr>model = (new_instance (CollectionCtor ''User''))
                  \<lparr>builder := [Where ''age'' ''>'' (Num 30)]\<rparr>,
        sync_options = no_options\<rparr>
     = Inr \<lparr>qtable = ''users'', qcalls = [Where ''age'' ''>'' (Num 30), WhereObj None, Del]\<rparr>"
  using
    del_guard [of example_world
      "\<lparr>model = new_instance (CollectionCtor ''User''), sync_options = no_options\<rparr>"]
    del_guard [of example_world
      "\<lparr>model = (new_instance (ModelCtor ''User''))\<lparr>attributes := [''id'' \<mapsto> Num 1]\<rparr>,
        sync_options = no_options\<rparr>"]
    del_guard [of example_world
      "\<lparr>model = (new_instance (CollectionCtor ''User''))
                  \<lparr>builder := [Where ''age'' ''>'' (Num 30)]\<rparr>,
        sync_options = no_options\<rparr>"]
  by (simp add: id_of_def new_instance_def query_of_def example_world_def count_wheres_def
      getattr_def example_classes_def result_tableName_def result_idAttribute_def)

section \<open>Properties of the pivot helpers\<close>

lemma Q_all_map_Inr: "Q_all (map (\<lambda>x. Inr (g x)) xs) = Inr (map g xs)"
  by (induction xs) auto

lemma handler_rows:
  "handler (this\<lparr>relation_of := Some pivot\<rparr>) method (IdsArray items) opts =
     Inr (map (\<lambda>it.
            if method = ''delete''
            then \<lparr>qtable = prop_key (joinTableName pivot),
                  qcalls = transacting_calls opts @ [WhereObj (Some (pivot_data pivot it)), Del]\<rparr>
            else \<lparr>qtable = prop_key (joinTableName pivot),
                  qcalls = transacting_calls opts @ [Insert (pivot_data pivot it)]\<rparr>) items)"
proof -
  have "(\<lambda>it. if method = ''delete''
               then Inr \<lparr>qtable = prop_key (joinTableName pivot),
                  qcalls = transacting_calls opts @ [WhereObj (Some (pivot_data pivot it)), Del]\<rparr>
               else Inr \<lparr>qtable = prop_key (joinTableName pivot),
                  qcalls = transacting_calls opts @ [Insert (pivot_data pivot it)]\<rparr>)
        = (\<lambda>it. Inr (if method = ''delete''
            then \<lparr>qtable = prop_key (joinTableName pivot),
                  qcalls = transacting_calls opts @ [WhereObj (Some (pivot_data pivot it)), Del]\<rparr>
            else \<lparr>qtable = prop_key (joinTableName pivot),
                  qcalls = transacting_calls opts @ [Insert (pivot_data pivot it)]\<rparr>)
              :: error + query)"
    by auto
  then show ?thesis
    by (simp add: handler_def Let_def Q_all_map_Inr)
qed

text \<open>
  C7. \<open>detach\<close> with \<open>ids\<close> omitted issues no delete at all: the omitted argument is
  normalised to the empty list and nothing is mapped over. With a list of items, \<open>detach\<close>
  issues one delete per item, matched by the row that \<open>attach\<close> inserts for the same item.
\<close>

theorem detach_without_ids_issues_nothing:
  "detach this (IdsOne (ItemPrim Undefined)) opts = Inr []
   \<and> detach (this\<lparr>relation_of := Some pivot\<rparr>) (IdsArray items) opts =
       Inr (map (\<lambda>it. \<lparr>qtable = prop_key (joinTableName pivot),
                        qcalls = transacting_calls opts @
                          [WhereObj (Some (pivot_data pivot it)), Del]\<rparr>) items)
   \<and> attach (this\<lparr>relation_of := Some pivot\<rparr>) (IdsArray items) opts =
       Inr (map (\<lambda>it. \<lparr>qtable = prop_key (joinTableName pivot),
                        qcalls = transacting_calls opts @ [Insert (pivot_data pivot it)]\<rparr>) items)"
  by (simp add: detach_def attach_def handler_rows) (simp add: handler_def)

text \<open>
  C8. \<open>attach\<close> of an already constructed child model inserts one row whose owner key is
  the relation's bound value and whose target key is that same bound value: the identity
  of the child model does not occur in the row. A truthy bare identifier is written to the
  target key.
\<close>

theorem attach_model_uses_owner_value:
  "attach (this\<lparr>relation_of := Some pivot\<rparr>) (IdsOne (ItemModel m)) opts =
     Inr [\<lparr>qtable = prop_key (joinTableName pivot),
           qcalls = transacting_calls opts @
             [Insert [prop_key (otherKey pivot) \<mapsto> fkValue pivot,
                      foreignKey pivot \<mapsto> fkValue pivot]]\<rparr>]
   \<and> attach ((new_instance (CollectionCtor ''Role''))\<lparr>relation_of := Some roles_of_user1\<rparr>)
       (IdsOne (ItemModel ((new_instance (ModelCtor ''Role''))\<lparr>attributes := [''id'' \<mapsto> Num 5]\<rparr>)))
       None =
     Inr [\<lparr>qtable = ''roles_users'',
           qcalls = [Insert [''user_id'' \<mapsto> Num 1, ''role_id'' \<mapsto> Num 1]]\<rparr>]
   \<and> attach ((new_instance (CollectionCtor ''Role''))\<lparr>relation_of := Some roles_of_user1\<rparr>)
       (IdsOne (ItemPrim (Num 5))) None =
     Inr [\<lparr>qtable = ''roles_users'',
           qcalls = [Insert [''user_id'' \<mapsto> Num 1, ''role_id'' \<mapsto> Num 5]]\<rparr>]"
  by (simp add: attach_def handler_def pivot_data_def Let_def roles_of_user1_def
      options_hash_def prop_key_def transacting_calls_def)



section \<open>Properties of eager loading\<close>

text \<open>
  The order of the second loop, and the filing of models by id: index names come first
  in ascending order, and of the models whose ids print alike only the first is kept.
\<close>

lemma for_in_order_example:
  "map fst (for_in_order [(''b'', x), (''10'', y), (''a'', z), (''2'', u), (''01'', v)])
     = [''2'', ''10'', ''b'', ''a'', ''01'']"
  by (simp add: for_in_order_def is_index_def is_digit_def index_value_def)

lemma collection_set_example:
  "map (entity_id example_world)
     (collection_set example_world []
        [Entity ''Role'' [''id'' \<mapsto> Num 7] Map.empty,
         Entity ''Role'' [''id'' \<mapsto> Str ''7''] Map.empty,
         Entity ''Role'' Map.empty Map.empty,
         Entity ''Role'' [''id'' \<mapsto> Num 12] Map.empty,
         Entity ''Role'' Map.empty Map.empty,
         Entity ''Role'' [''id'' \<mapsto> Num 7] Map.empty])
     = [Num 7, Undefined, Num 12, Undefined]"
  by (simp add: entity_id_def getattr_def example_world_def example_classes_def
      show_nat.simps)

lemma set_parentResponse_Some:
  "set_parentResponse x pr = Inr y \<Longrightarrow>
   \<exists>ri r. x = Some ri \<and> relation_of ri = Some r
     \<and> y = Some (ri\<lparr>relation_of := Some (r\<lparr>parentResponse := Some pr\<rparr>)\<rparr>)"
  by (cases x) (auto split: option.splits)

lemma related_loop_Cons:
  assumes "related_loop w t pr (path # rest) h0 s0 = Inr (h, s)"
  obtains name d s2 h1 where "split_dot path = name # d"
    and "(if d \<noteq> [] then push_subRelated s0 name (join_dot d) else Inr s0) = Inr s2"
    and "related_loop w t pr rest h1 s2 = Inr (h, s)"
    and "(h1 = h0 \<and> (name \<in> fst ` set h0 \<or> inherited_name name))
         \<or> (name \<notin> fst ` set h0 \<and> \<not> inherited_name name
            \<and> (\<exists>ri ri'. call_named w t name = Inr (Some ri)
                 \<and> set_parentResponse (Some ri) pr = Inr (Some ri')
                 \<and> h1 = h0 @ [(name, ri')]))"
proof -
  obtain name d where sp: "split_dot path = name # d"
    using split_dot_not_Nil [of path] by (cases "split_dot path") auto
  obtain s2 where push:
      "(if d \<noteq> [] then push_subRelated s0 name (join_dot d) else Inr s0) = Inr s2"
    using assms sp by (auto split: sum.splits)
  show thesis
  proof (cases "map_of h0 name \<noteq> None \<or> inherited_name name")
    case True
    then have "name \<in> fst ` set h0 \<or> inherited_name name"
      by (auto simp add: map_of_eq_None_iff)
    moreover have "related_loop w t pr rest h0 s2 = Inr (h, s)"
      using assms sp push True by auto
    ultimately show thesis using that [OF sp push] by blast
  next
    case False
    then have notin: "name \<notin> fst ` set h0" "\<not> inherited_name name"
      by (auto simp add: map_of_eq_None_iff)
    from assms sp push False obtain relation where cn: "call_named w t name = Inr relation"
      by (auto split: sum.splits)
    from assms sp push False cn obtain relation1 where
      spr: "set_parentResponse relation pr = Inr relation1"
      by (auto split: sum.splits)
    from set_parentResponse_Some [OF spr] obtain ri ri' where
      r: "relation = Some ri" "relation1 = Some ri'" by auto
    have "related_loop w t pr rest (h0 @ [(name, ri')]) s2 = Inr (h, s)"
      using assms sp push False cn spr r by auto
    then show thesis using that [OF sp push] notin cn spr r by blast
  qed
qed

lemma related_loop_names:
  "related_loop w t pr ps h0 s0 = Inr (h, s) \<Longrightarrow> distinct (map fst h0) \<Longrightarrow>
   distinct (map fst h)
   \<and> fst ` set h = fst ` set h0 \<union> {n \<in> first_name ` set ps. \<not> inherited_name n}"
proof (induction ps arbitrary: h0 s0)
  case Nil
  then show ?case by simp
next
  case (Cons path rest)
  from Cons.prems(1) obtain name d s2 h1 where sp: "split_dot path = name # d"
    and rec: "related_loop w t pr rest h1 s2 = Inr (h, s)"
    and h1: "(h1 = h0 \<and> (name \<in> fst ` set h0 \<or> inherited_name name))
         \<or> (name \<notin> fst ` set h0 \<and> \<not> inherited_name name
            \<and> (\<exists>ri ri'. call_named w t name = Inr (Some ri)
                 \<and> set_parentResponse (Some ri) pr = Inr (Some ri')
                 \<and> h1 = h0 @ [(name, ri')]))"
    by (rule related_loop_Cons)
  have fn: "first_name path = name" using sp by (simp add: first_name_def)
  have d1: "distinct (map fst h1)" using h1 Cons.prems(2) by auto
  have names: "fst ` set h1 \<union> {n \<in> first_name ` set rest. \<not> inherited_name n}
      = fst ` set h0 \<union> {n \<in> first_name ` set (path # rest). \<not> inherited_name n}"
    using h1 fn by auto
  from Cons.IH [OF rec d1] names show ?case by simp
qed

lemma related_loop_entries:
  "related_loop w t pr ps h0 s0 = Inr (h, s) \<Longrightarrow> (n, ri') \<in> set h \<Longrightarrow>
   (n, ri') \<in> set h0
   \<or> (\<exists>ri. call_named w t n = Inr (Some ri) \<and> set_parentResponse (Some ri) pr = Inr (Some ri'))"
proof (induction ps arbitrary: h0 s0)
  case Nil
  then show ?case by simp
next
  case (Cons path rest)
  from Cons.prems(1) obtain name d s2 h1 where sp: "split_dot path = name # d"
    and rec: "related_loop w t pr rest h1 s2 = Inr (h, s)"
    and h1: "(h1 = h0 \<and> (name \<in> fst ` set h0 \<or> inherited_name name))
         \<or> (name \<notin> fst ` set h0 \<and> \<not> inherited_name name
            \<and> (\<exists>ri ri'. call_named w t name = Inr (Some ri)
                 \<and> set_parentResponse (Some ri) pr = Inr (Some ri')
                 \<and> h1 = h0 @ [(name, ri')]))"
    by (rule related_loop_Cons)
  from Cons.IH [OF rec Cons.prems(2)] h1 show ?case by auto
qed

lemma deeper_paths_Cons:
  "split_dot path = name # d \<Longrightarrow>
   deeper_paths n (path # rest) =
     (if name = n \<and> d \<noteq> [] then [join_dot d] else []) @ deeper_paths n rest"
  by (simp add: deeper_paths_def)

lemma related_loop_sub:
  "related_loop w t pr ps h0 s0 = Inr (h, s) \<Longrightarrow>
   s n = (if deeper_paths n ps = [] then s0 n
          else Some ((case s0 n of None \<Rightarrow> [] | Some l \<Rightarrow> l) @ deeper_paths n ps))"
proof (induction ps arbitrary: h0 s0)
  case Nil
  then show ?case by (simp add: deeper_paths_def)
next
  case (Cons path rest)
  from Cons.prems(1) obtain name d s2 h1 where sp: "split_dot path = name # d"
    and push: "(if d \<noteq> [] then push_subRelated s0 name (join_dot d) else Inr s0) = Inr s2"
    and rec: "related_loop w t pr rest h1 s2 = Inr (h, s)"
    by (rule related_loop_Cons)
  from Cons.IH [OF rec] push show ?case
    by (auto simp add: deeper_paths_Cons [OF sp] push_subRelated_def
        split: option.splits if_splits)
qed

lemma Q_all_Inr: "Q_all rs = Inr ys \<Longrightarrow> rs = map Inr ys"
proof (induction rs arbitrary: ys)
  case Nil
  then show ?case by simp
next
  case (Cons r rs)
  then show ?case by (cases r) (auto split: sum.splits)
qed

lemma Q_all_map_all2:
  assumes "Q_all (map g xs) = Inr ys"
  shows "list_all2 (\<lambda>x y. g x = Inr y) xs ys"
proof -
  have "map g xs = map Inr ys" using Q_all_Inr [OF assms] .
  then show ?thesis
    by (induction xs arbitrary: ys) (auto simp add: list_all2_Cons1)
qed

lemma distinct_for_in_order:
  assumes "distinct (map fst h)"
  shows "distinct (map fst (for_in_order h))"
proof -
  have d: "distinct h" and inj: "inj_on fst (set h)"
    using assms by (simp_all add: distinct_map)
  have "distinct (for_in_order h)"
    using d by (auto simp add: for_in_order_def)
  then show ?thesis using inj by (simp add: distinct_map set_for_in_order)
qed

lemma processRelated_level:
  assumes "processRelated w parent t pr opts = Inr (logs, p1)"
    and "withRelated opts = Some ps"
  shows "\<exists>handled s results. related_loop w t pr ps [] Map.empty = Inr (handled, s)
           \<and> list_all2 (\<lambda>x y. fst y = Fetched (fst x) (fquery (fst y)) (nested (fst y))
                 \<and> (\<exists>models. snd y = (fst x, snd x, models)
                      \<and> fetch w (snd x) (level_opts opts (s (fst x)))
                         = Inr (fquery (fst y), nested (fst y), models)))
               (for_in_order handled) results
           \<and> logs = map fst results
           \<and> matchResponses w parent (map snd results) = Inr p1"
proof -
  from assms obtain handled s where
    rl: "related_loop w t pr ps [] Map.empty = Inr (handled, s)"
    by (subst (asm) processRelated.simps) (auto split: sum.splits)
  define g where "g = (\<lambda>x. case x of (name, rel) \<Rightarrow>
      (case fetch w rel (level_opts opts (s name)) of
         Inl e \<Rightarrow> Inl e
       | Inr (q, lg, models) \<Rightarrow> Inr (Fetched name q lg, (name, rel, models))))"
  from assms rl obtain results where
    qa: "Q_all (map g (for_in_order handled)) = Inr results" and lg: "logs = map fst results"
    and mr: "matchResponses w parent (map snd results) = Inr p1"
    by (subst (asm) processRelated.simps)
       (auto simp add: g_def level_opts_def split: sum.splits)
  have "list_all2 (\<lambda>x y. g x = Inr y) (for_in_order handled) results"
    using Q_all_map_all2 [OF qa] .
  then have "list_all2 (\<lambda>x y. fst y = Fetched (fst x) (fquery (fst y)) (nested (fst y))
                 \<and> (\<exists>models. snd y = (fst x, snd x, models)
                      \<and> fetch w (snd x) (level_opts opts (s (fst x)))
                         = Inr (fquery (fst y), nested (fst y), models)))
               (for_in_order handled) results"
    by (rule list_all2_mono) (auto simp add: g_def split: sum.splits prod.splits)
  then show ?thesis using rl lg mr by blast
qed

lemma distinct_filter_single:
  "distinct (map k xs) \<Longrightarrow> x \<in> set xs \<Longrightarrow> filter (\<lambda>y. k y = k x) xs = [x]"
proof (induction xs)
  case Nil
  then show ?case by simp
next
  case (Cons a xs)
  show ?case
  proof (cases "a = x")
    case True
    have "k x \<notin> k ` set xs" using Cons.prems(1) True by simp
    then have "\<forall>y\<in>set xs. k y \<noteq> k x" by (metis imageI)
    then have "filter (\<lambda>y. k y = k x) xs = []"
      by (simp add: filter_empty_conv)
    then show ?thesis using True by simp
  next
    case False
    then have "x \<in> set xs" using Cons.prems(2) by simp
    moreover have "k a \<noteq> k x" using Cons.prems(1) \<open>x \<in> set xs\<close> by auto
    ultimately show ?thesis using Cons by simp
  qed
qed

lemma level_unique:
  assumes "processRelated w parent t pr opts = Inr (logs, p1)"
    and "withRelated opts = Some ps" and "p \<in> set ps"
    and "\<not> inherited_name (first_name p)"
  shows "\<exists>f ri ri'. filter (\<lambda>g. fname g = first_name p) logs = [f]
           \<and> call_named w t (first_name p) = Inr (Some ri)
           \<and> set_parentResponse (Some ri) pr = Inr (Some ri')
           \<and> (\<exists>models. fetch w ri'
                 (level_opts opts (if deeper_paths (first_name p) ps = [] then None
                                   else Some (deeper_paths (first_name p) ps)))
               = Inr (fquery f, nested f, models))"
proof -
  from processRelated_level [OF assms(1,2)] obtain handled s results where
    rl: "related_loop w t pr ps [] Map.empty = Inr (handled, s)"
    and all2: "list_all2 (\<lambda>x y. fst y = Fetched (fst x) (fquery (fst y)) (nested (fst y))
                 \<and> (\<exists>models. snd y = (fst x, snd x, models)
                      \<and> fetch w (snd x) (level_opts opts (s (fst x)))
                         = Inr (fquery (fst y), nested (fst y), models)))
               (for_in_order handled) results"
    and lg: "logs = map fst results"
    by blast
  have names: "distinct (map fst handled)"
    "fst ` set handled = {n \<in> first_name ` set ps. \<not> inherited_name n}"
    using related_loop_names [OF rl] by auto
  have sub: "s (first_name p) = (if deeper_paths (first_name p) ps = [] then None
                                   else Some (deeper_paths (first_name p) ps))"
    using related_loop_sub [OF rl, of "first_name p"] by simp
  have len: "length (for_in_order handled) = length results"
    using all2 by (rule list_all2_lengthD)
  have fn: "map fname logs = map fst (for_in_order handled)"
    unfolding lg using all2
    by (induction rule: list_all2_induct) (auto, metis fetched.sel(1))
  have "first_name p \<in> fst ` set handled" using names(2) assms(3,4) by blast
  then obtain ri' where mem: "(first_name p, ri') \<in> set handled" by auto
  then have "(first_name p, ri') \<in> set (for_in_order handled)"
    by (simp add: set_for_in_order)
  then obtain i where i: "i < length (for_in_order handled)"
    "for_in_order handled ! i = (first_name p, ri')"
    by (auto simp add: in_set_conv_nth)
  define f where "f = logs ! i"
  have fi: "fname f = first_name p"
    "\<exists>models. fetch w ri' (level_opts opts (s (first_name p))) = Inr (fquery f, nested f, models)"
    using list_all2_nthD [OF all2 i(1)] i len
    by (auto simp add: f_def lg, metis fetched.sel(1))
  have fmem: "f \<in> set logs" using i(1) len by (simp add: f_def lg)
  have "distinct (map fname logs)" using fn distinct_for_in_order [OF names(1)] by simp
  from distinct_filter_single [OF this fmem]
  have single: "filter (\<lambda>g. fname g = first_name p) logs = [f]" using fi(1) by simp
  from related_loop_entries [OF rl mem] obtain ri where
    "call_named w t (first_name p) = Inr (Some ri)"
    "set_parentResponse (Some ri) pr = Inr (Some ri')" by auto
  then show ?thesis using single fi(2) sub by auto
qed

lemma relatesTo_shape:
  "\<exists>r. relatesTo w t True T options =
     Inr \<lparr>ctor_of = (if (rtype options = HasMany \<or> rtype options = BelongsToMany)
                        \<and> instanceof_Model (Prototype T)
                     then CollectionCtor (ctor_class T) else T),
          attributes = Map.empty, relation_of = Some r, builder = [],
          pivotHelpers = (rtype options = BelongsToMany)\<rparr>
     \<and> rtype r = rtype options \<and> foreignKey r = foreignKey options
     \<and> otherKey r = otherKey options
     \<and> parentResponse r = parentResponse options \<and> columns r = columns options
     \<and> parentIdAttr r = Some (result_idAttribute w t)
     \<and> modelCtor r =
         Some (if rtype options = HasMany \<or> rtype options = BelongsToMany
               then ModelCtor (ctor_class T) else T)"
  by (simp add: relatesTo_def Let_def new_instance_def)

lemma declared_modelCtor_is_model:
  assumes "call_named w t n = Inr (Some ri)"
  shows "\<exists>r c. relation_of ri = Some r \<and> modelCtor r = Some (ModelCtor c)"
proof -
  from assms obtain a where ca: "call_accessor w t True a = Inr (Some ri)"
    by (auto simp add: call_named_def split: option.splits)
  show ?thesis
  proof (cases a)
    case (CallsHasOne T fk)
    then show ?thesis
      using ca relatesTo_shape [of w t "ModelCtor T"
          "options_hash HasOne (or_default fk (singularize w (result_tableName w t) @ ''_id'')) None None"]
      by (auto simp add: call_accessor_def hasOne_def options_hash_def)
  next
    case (CallsHasMany T fk)
    then show ?thesis
      using ca relatesTo_shape [of w t T
          "options_hash HasMany (or_default fk (singularize w (result_tableName w t) @ ''_id'')) None None"]
      by (auto simp add: call_accessor_def hasMany_def options_hash_def)
  next
    case (CallsBelongsTo T ok)
    then show ?thesis
      using ca relatesTo_shape [of w t "ModelCtor T"
          "options_hash BelongsTo (idAttribute (classes w T))
          (Some (or_default ok (singularize w (tableName (classes w T)) @ ''_id''))) None"]
      by (auto simp add: call_accessor_def belongsTo_def options_hash_def)
  next
    case (CallsBelongsToMany T jt fk ok)
    then show ?thesis
      using ca relatesTo_shape [of w t T
          "options_hash BelongsToMany
          (or_default fk (singularize w (tableName (classes w (ctor_class T))) @ ''_id''))
          (Some (or_default ok (singularize w (result_tableName w t) @ ''_id'')))
          (Some (or_default jt
             (sort_join (result_tableName w t) (tableName (classes w (ctor_class T))))))"]
      by (auto simp add: call_accessor_def belongsToMany_def options_hash_def)
  next
    case ReturnsNothing
    then show ?thesis using ca by (simp add: call_accessor_def)
  qed
qed



lemma fetch_nested:
  assumes "fetch w this o1 = Inr (q, lg, ms)"
    and "run_select w q \<noteq> []" and "withRelated o1 = Some sfx"
  shows "\<exists>par tgt p1. processRelated w par tgt (run_select w q) o1 = Inr (lg, p1)"
  using assms
  by (subst (asm) fetch.simps)
     (auto simp add: Let_def split: option.splits sum.splits if_splits)




text \<open>
  Every path list: exactly one fetch is made for the first name of each path that is not
  an inherited name, however many paths share that name. When that fetch returned rows
  and deeper paths were recorded for the name, \<open>processRelated\<close> is run on the fetched rows
  with the whole list of those deeper paths, those of the later duplicates included, and
  makes exactly one fetch for the first name of each of them.
\<close>

lemma level_fetches_all_suffixes:
  assumes "load w this (RelArray paths) opts = Inr (logs, parent1)" and "p \<in> set paths"
    and "\<not> inherited_name (first_name p)"
  shows "\<exists>f. filter (\<lambda>g. fname g = first_name p) logs = [f]
           \<and> (run_select w (fquery f) \<noteq> [] \<and> deeper_paths (first_name p) paths \<noteq> [] \<longrightarrow>
                (\<exists>par tgt p1.
                    processRelated w par tgt (run_select w (fquery f))
                      (level_opts opts (Some (deeper_paths (first_name p) paths)))
                    = Inr (nested f, p1))
                \<and> (\<forall>n \<in> set (deeper_paths (first_name p) paths).
                      \<not> inherited_name (first_name n) \<longrightarrow>
                      (\<exists>g. filter (\<lambda>g. fname g = first_name n) (nested f) = [g])))"
proof -
  define opts1 where "opts1 = opts\<lparr>withRelated := Some paths\<rparr>"
  have wr: "withRelated opts1 = Some paths" by (simp add: opts1_def)
  have lo: "level_opts opts1 sub = level_opts opts sub" for sub
    by (simp add: level_opts_def opts1_def)
  from assms(1) obtain target pr where
    pr: "processRelated w this target pr opts1 = Inr (logs, parent1)"
    by (cases this) (auto simp add: load_def opts1_def Let_def)
  from level_unique [OF pr wr assms(2,3)] obtain f ri' models where
    single: "filter (\<lambda>g. fname g = first_name p) logs = [f]"
    and fe: "fetch w ri'
                 (level_opts opts1 (if deeper_paths (first_name p) paths = [] then None
                                   else Some (deeper_paths (first_name p) paths)))
               = Inr (fquery f, nested f, models)"
    by auto
  define o2 where "o2 = level_opts opts (Some (deeper_paths (first_name p) paths))"
  have wr2: "withRelated o2 = Some (deeper_paths (first_name p) paths)"
    by (simp add: o2_def level_opts_def)
  have deep: "(\<exists>par tgt p1. processRelated w par tgt (run_select w (fquery f)) o2
                 = Inr (nested f, p1))
              \<and> (\<forall>n \<in> set (deeper_paths (first_name p) paths).
                    \<not> inherited_name (first_name n) \<longrightarrow>
                    (\<exists>g. filter (\<lambda>g. fname g = first_name n) (nested f) = [g]))"
    if rows: "run_select w (fquery f) \<noteq> []"
      and ne: "deeper_paths (first_name p) paths \<noteq> []"
  proof -
    have fe2: "fetch w ri' o2 = Inr (fquery f, nested f, models)"
      using fe ne by (simp add: o2_def lo)
    from fetch_nested [OF fe2 rows wr2] obtain par tgt p1 where
      nested: "processRelated w par tgt (run_select w (fquery f)) o2 = Inr (nested f, p1)"
      by blast
    have "\<exists>g. filter (\<lambda>g. fname g = first_name n) (nested f) = [g]"
      if "n \<in> set (deeper_paths (first_name p) paths)" "\<not> inherited_name (first_name n)" for n
      using level_unique [OF nested wr2 that] by blast
    then show ?thesis using nested by blast
  qed
  show ?thesis using single deep unfolding o2_def by blast
qed

text \<open>
  C3. For \<open>["posts.comments", "posts.tags"]\<close>, where \<open>posts\<close> is a \<open>hasMany\<close> relation,
  one fetch is made for \<open>posts\<close> and under it one for \<open>comments\<close> and one for \<open>tags\<close>,
  and every post that a user receives carries both relations. For
  \<open>["profile.avatars", "profile.badges"]\<close>, where \<open>profile\<close> is a \<open>hasOne\<close> relation,
  the same fetches are made, but the profile that a user receives carries neither
  \<open>avatars\<close> nor \<open>badges\<close>: the nested level wrote them onto the empty model that stands
  for the relation, not onto the fetched profiles.
\<close>

theorem nested_relations_lost_under_single_relation:
  "(case load example_world two_users (RelArray [''posts.comments'', ''posts.tags''])
           no_options of
      Inr (logs, ParentCollection c ms) \<Rightarrow>
        (map (\<lambda>f. (fname f, map fname (nested f))) logs,
         map (\<lambda>m. case relations m ''posts'' of
                     Some (RCollection C kids) \<Rightarrow>
                       map (\<lambda>k. (relations k ''comments'' \<noteq> None,
                                 relations k ''tags'' \<noteq> None)) kids
                   | _ \<Rightarrow> []) ms)
    | _ \<Rightarrow> ([], []))
     = ([(''posts'', [''comments'', ''tags''])], [[(True, True), (True, True)], []])
   \<and> (case load example_world two_users (RelArray [''profile.avatars'', ''profile.badges''])
             no_options of
        Inr (logs, ParentCollection c ms) \<Rightarrow>
          (map (\<lambda>f. (fname f, map fname (nested f))) logs,
           map (\<lambda>m. case relations m ''profile'' of
                       Some (RModel k) \<Rightarrow>
                         [(relations k ''avatars'' \<noteq> None, relations k ''badges'' \<noteq> None)]
                     | _ \<Rightarrow> []) ms)
      | _ \<Rightarrow> ([], []))
     = ([(''profile'', [''avatars'', ''badges''])], [[(False, False)], []])
   \<and> (case load example_world (ParentModel (Entity ''User'' [''id'' \<mapsto> Num 1] Map.empty))
             (RelArray [''profile.avatars'', ''profile.badges'']) no_options of
        Inr (logs, ParentModel m) \<Rightarrow>
          (map (\<lambda>f. (fname f, map fname (nested f))) logs,
           case relations m ''profile'' of
             Some (RModel k) \<Rightarrow>
               [(relations k ''avatars'' \<noteq> None, relations k ''badges'' \<noteq> None)]
           | _ \<Rightarrow> [])
      | _ \<Rightarrow> ([], []))
     = ([(''profile'', [''avatars'', ''badges''])], [(False, False)])"
proof -
  have many: "(case load example_world two_users (RelArray [''posts.comments'', ''posts.tags''])
           no_options of
      Inr (logs, ParentCollection c ms) \<Rightarrow>
        (map (\<lambda>f. (fname f, map fname (nested f))) logs,
         map (\<lambda>m. case relations m ''posts'' of
                     Some (RCollection C kids) \<Rightarrow>
                       map (\<lambda>k. (relations k ''comments'' \<noteq> None,
                                 relations k ''tags'' \<noteq> None)) kids
                   | _ \<Rightarrow> []) ms)
    | _ \<Rightarrow> ([], []))
     = ([(''posts'', [''comments'', ''tags''])], [[(True, True), (True, True)], []])"
    by (simp add: eager_defs processRelated.simps fetch.simps)
  have single: "(case load example_world two_users
                       (RelArray [''profile.avatars'', ''profile.badges'']) no_options of
        Inr (logs, ParentCollection c ms) \<Rightarrow>
          (map (\<lambda>f. (fname f, map fname (nested f))) logs,
           map (\<lambda>m. case relations m ''profile'' of
                       Some (RModel k) \<Rightarrow>
                         [(relations k ''avatars'' \<noteq> None, relations k ''badges'' \<noteq> None)]
                     | _ \<Rightarrow> []) ms)
      | _ \<Rightarrow> ([], []))
     = ([(''profile'', [''avatars'', ''badges''])], [[(False, False)], []])"
    by (simp add: eager_defs processRelated.simps fetch.simps)
  have alone: "(case load example_world
                      (ParentModel (Entity ''User'' [''id'' \<mapsto> Num 1] Map.empty))
             (RelArray [''profile.avatars'', ''profile.badges'']) no_options of
        Inr (logs, ParentModel m) \<Rightarrow>
          (map (\<lambda>f. (fname f, map fname (nested f))) logs,
           case relations m ''profile'' of
             Some (RModel k) \<Rightarrow>
               [(relations k ''avatars'' \<noteq> None, relations k ''badges'' \<noteq> None)]
           | _ \<Rightarrow> [])
      | _ \<Rightarrow> ([], []))
     = ([(''profile'', [''avatars'', ''badges''])], [(False, False)])"
    by (simp add: eager_defs processRelated.simps fetch.simps)
  show ?thesis using many single alone by simp
qed

lemma relatesTo_not_Inl: "relatesTo w t eager T options \<noteq> Inl e"
  by (simp add: relatesTo_def Let_def)

lemma call_named_error:
  assumes "call_named w t n = Inl e"
  shows "e = TypeError"
proof (cases "accessors (classes w (ctor_class (ctor_of t))) n")
  case None
  then show ?thesis using assms by (simp add: call_named_def)
next
  case (Some a)
  then show ?thesis using assms relatesTo_not_Inl
    by (cases a)
       (auto simp add: call_named_def call_accessor_def hasOne_def hasMany_def belongsTo_def
          belongsToMany_def map_sum_def split: sum.splits)
qed

lemma call_named_declared:
  "call_named w t n = Inr x \<Longrightarrow> accessors (classes w (ctor_class (ctor_of t))) n \<noteq> None"
  by (auto simp add: call_named_def split: option.splits)

lemma set_parentResponse_error: "set_parentResponse x pr = Inl e \<Longrightarrow> e = TypeError"
  by (cases x) (auto split: option.splits)

lemma related_loop_error:
  "related_loop w t pr ps h0 s0 = Inl e \<Longrightarrow> e = TypeError"
proof (induction ps arbitrary: h0 s0)
  case Nil
  then show ?case by simp
next
  case (Cons path rest)
  obtain name d where sp: "split_dot path = name # d"
    using split_dot_not_Nil [of path] by (cases "split_dot path") auto
  show ?case
  proof (cases "if d \<noteq> [] then push_subRelated s0 name (join_dot d) else Inr s0")
    case (Inl e1)
    then have "e1 = TypeError" by (auto simp add: push_subRelated_def split: if_splits)
    then show ?thesis using Cons.prems sp Inl by simp
  next
    case push: (Inr s2)
    show ?thesis
    proof (cases "map_of h0 name \<noteq> None \<or> inherited_name name")
      case True
      then show ?thesis using Cons sp push by auto
    next
      case False
      show ?thesis
      proof (cases "call_named w t name")
        case (Inl e1)
        then show ?thesis using Cons.prems sp push False call_named_error [OF Inl] by auto
      next
        case (Inr relation)
        show ?thesis
        proof (cases "set_parentResponse relation pr")
          case (Inl e1)
          then show ?thesis
            using Cons.prems sp push False Inr set_parentResponse_error [OF Inl] by auto
        next
          case (Inr relation1)
          from set_parentResponse_Some [OF Inr] obtain ri' where r1: "relation1 = Some ri'"
            by auto
          show ?thesis
            using Cons.prems sp push False \<open>call_named w t name = Inr relation\<close> Inr r1
              Cons.IH
            by auto
        qed
      qed
    qed
  qed
qed

lemma related_loop_missing:
  assumes "p \<in> set ps"
    and "accessors (classes w (ctor_class (ctor_of t))) (first_name p) = None"
    and "\<not> inherited_name (first_name p)"
    and "\<forall>n \<in> fst ` set h0. accessors (classes w (ctor_class (ctor_of t))) n \<noteq> None"
  shows "related_loop w t pr ps h0 s0 = Inl TypeError"
  using assms
proof (induction ps arbitrary: h0 s0)
  case Nil
  then show ?case by simp
next
  case (Cons path rest)
  obtain name d where sp: "split_dot path = name # d"
    using split_dot_not_Nil [of path] by (cases "split_dot path") auto
  have fn: "first_name path = name" using sp by (simp add: first_name_def)
  show ?case
  proof (cases "if d \<noteq> [] then push_subRelated s0 name (join_dot d) else Inr s0")
    case (Inl e1)
    then have "e1 = TypeError" by (auto simp add: push_subRelated_def split: if_splits)
    then show ?thesis using sp Inl by simp
  next
    case push: (Inr s2)
    show ?thesis
    proof (cases "map_of h0 name \<noteq> None \<or> inherited_name name")
      case True
      then have "name \<in> fst ` set h0 \<or> inherited_name name"
        by (auto simp add: map_of_eq_None_iff)
      then have "accessors (classes w (ctor_class (ctor_of t))) name \<noteq> None
                 \<or> inherited_name name"
        using Cons.prems(4) by blast
      then have "p \<in> set rest" using Cons.prems(1,2,3) fn by auto
      from Cons.IH [OF this Cons.prems(2,3,4)] show ?thesis using sp push True by auto
    next
      case False
      show ?thesis
      proof (cases "call_named w t name")
        case (Inl e)
        then show ?thesis using sp push False call_named_error [OF Inl] by auto
      next
        case (Inr relation)
        have decl: "accessors (classes w (ctor_class (ctor_of t))) name \<noteq> None"
          using call_named_declared [OF Inr] .
        then have mem: "p \<in> set rest" using Cons.prems(1,2) fn by auto
        show ?thesis
        proof (cases "set_parentResponse relation pr")
          case (Inl e)
          then show ?thesis
            using sp push False Inr set_parentResponse_error [OF Inl] by auto
        next
          case (Inr relation1)
          from set_parentResponse_Some [OF Inr] obtain ri' where r1: "relation1 = Some ri'"
            by auto
          have inv: "\<forall>n \<in> fst ` set (h0 @ [(name, ri')]).
                       accessors (classes w (ctor_class (ctor_of t))) n \<noteq> None"
            using Cons.prems(4) decl by auto
          from Cons.IH [OF mem Cons.prems(2,3) inv] show ?thesis
            using sp push False \<open>call_named w t name = Inr relation\<close> Inr r1 by auto
        qed
      qed
    qed
  qed
qed

lemma object_prototype_names_no_dot: "\<forall>n \<in> set object_prototype_names. split_dot n = [n]"
  by (simp add: object_prototype_names_def)

lemma inherited_name_no_dot: "inherited_name n \<Longrightarrow> split_dot n = [n]"
  using object_prototype_names_no_dot by (simp add: inherited_name_def)

text \<open>
  C5. When a requested path names a relation for which the entity type declares no
  accessor, and the name is not one that every object inherits, \<open>processRelated\<close> fails,
  and the failure is the runtime's TypeError raised by calling the missing accessor: the
  test that would raise \<open>UnknownRelation\<close> comes after the call and after a property
  read of its result, and the first loop never ends with that error, whatever it is
  asked. A requested inherited name, such as \<open>constructor\<close>, is skipped: nothing is
  fetched and nothing fails.
\<close>

theorem missing_accessor_raises_TypeError:
  assumes "withRelated opts = Some paths" and "p \<in> set paths"
    and "accessors (classes w (ctor_class (ctor_of target))) (first_name p) = None"
    and "\<not> inherited_name (first_name p)"
  shows "processRelated w parent target pr opts = Inl TypeError
         \<and> processRelated w parent target pr opts \<noteq> Inl (UnknownRelation (first_name p))
         \<and> related_loop w target pr paths2 h0 s0 \<noteq> Inl (UnknownRelation n)
         \<and> (inherited_name n2 \<longrightarrow>
              processRelated w parent target pr (opts\<lparr>withRelated := Some [n2]\<rparr>)
                = Inr ([], parent))"
proof -
  have "related_loop w target pr paths [] Map.empty = Inl TypeError"
    by (rule related_loop_missing [OF assms(2,3,4)]) simp
  then have "processRelated w parent target pr opts = Inl TypeError"
    using assms(1) by (subst processRelated.simps) simp
  moreover have "related_loop w target pr paths2 h0 s0 \<noteq> Inl (UnknownRelation n)"
    using related_loop_error [of w target pr paths2 h0 s0 "UnknownRelation n"] by auto
  moreover have "processRelated w parent target pr (opts\<lparr>withRelated := Some [n2]\<rparr>)
                   = Inr ([], parent)" if "inherited_name n2"
    using that inherited_name_no_dot [OF that]
    by (subst processRelated.simps) (simp add: for_in_order_def)
  ultimately show ?thesis by simp
qed

theorem missing_accessor_raises_TypeError_witness:
  "load example_world two_users (RelArray [''nope'']) no_options = Inl TypeError
   \<and> load example_world two_users (RelArray [''constructor'']) no_options
       = Inr ([], two_users)"
  using missing_accessor_raises_TypeError
    [where opts = "no_options\<lparr>withRelated := Some [''nope'']\<rparr>" and paths = "[''nope'']"
       and p = "''nope''" and w = example_world
       and target = "new_instance (ModelCtor ''User'')" and parent = two_users
       and pr = "[[''id'' \<mapsto> Num 1], [''id'' \<mapsto> Num 2]]" and ?n2.0 = "''constructor''"]
  by (simp add: load_def two_users_def first_name_def new_instance_def example_world_def
      example_classes_def inherited_name_def object_prototype_names_def)

text \<open>
  C2. In a parent collection, a member with no matching child of a \<open>hasOne\<close> or
  \<open>belongsTo\<close> relation gets \<open>undefined\<close> in its relation map, not a new empty child:
  \<open>eagerRelated\<close> returns what \<open>findWhere\<close> returns. In the example, user 1 gets the
  profile and user 2 gets \<open>undefined\<close>; loaded alone, user 2 gets a new empty profile.
\<close>

theorem set_member_without_child_gets_undefined:
  "eagerRelated w HasOne (t\<lparr>relation_of := Some r\<rparr>)
      (filter (\<lambda>m. getattr (attrs m) (foreignKey r) \<noteq> ident) eager) ident = Inr RUndefined
   \<and> eagerRelated w BelongsTo (t\<lparr>relation_of := Some r\<rparr>)
      (filter (\<lambda>m. getattr (attrs m) (foreignKey r) \<noteq> ident) eager) ident = Inr RUndefined
   \<and> (case load example_world two_users (RelOne (Some ''profile'')) no_options of
        Inr (logs, ParentCollection c ms) \<Rightarrow>
          map (\<lambda>m. relations m ''profile'' = Some RUndefined) ms
      | _ \<Rightarrow> []) = [False, True]
   \<and> (case load example_world (ParentModel user2) (RelOne (Some ''profile'')) no_options of
        Inr (logs, ParentModel m) \<Rightarrow>
          relations m ''profile'' = Some (RModel (Entity ''Profile'' Map.empty Map.empty))
      | _ \<Rightarrow> False)"
proof -
  have none: "findWhere (filter (\<lambda>m. getattr (attrs m) k \<noteq> ident) eager) k ident = None"
    for k
    by (simp add: findWhere_def find_None_iff)
  have general: "eagerRelated w HasOne (t\<lparr>relation_of := Some r\<rparr>)
      (filter (\<lambda>m. getattr (attrs m) (foreignKey r) \<noteq> ident) eager) ident = Inr RUndefined"
    "eagerRelated w BelongsTo (t\<lparr>relation_of := Some r\<rparr>)
      (filter (\<lambda>m. getattr (attrs m) (foreignKey r) \<noteq> ident) eager) ident = Inr RUndefined"
    by (simp_all add: eagerRelated_def none)
  have in_set: "(case load example_world two_users (RelOne (Some ''profile'')) no_options of
        Inr (logs, ParentCollection c ms) \<Rightarrow>
          map (\<lambda>m. relations m ''profile'' = Some RUndefined) ms
      | _ \<Rightarrow> []) = [False, True]"
    by (simp add: eager_defs processRelated.simps fetch.simps)
  have alone: "(case load example_world (ParentModel user2) (RelOne (Some ''profile''))
                      no_options of
        Inr (logs, ParentModel m) \<Rightarrow>
          relations m ''profile'' = Some (RModel (Entity ''Profile'' Map.empty Map.empty))
      | _ \<Rightarrow> False)"
    by (simp add: eager_defs processRelated.simps fetch.simps)
  show ?thesis using general in_set alone by simp
qed

end
